theory Spec2Isabelle
  imports Complex_Main "HOL-Library.Word" "HOL-Library.AList" "HOL-Library.Sublist"
begin

section \<open>Values sent to the upstream image API\<close>

text \<open>
  The server builds every upstream request as a JavaScript object that grows by
  conditional property assignment (\<^verbatim>\<open>const requestBody: any = {...}\<close>). The object is
  modelled as an association list in insertion order; a property assignment is
  \<open>AList.update\<close> (replace in place when the key exists, append otherwise) and a
  property read is \<open>map_of\<close>. Numbers are the rational value of the JSON literal;
  floating-point rounding is not modelled. Optional TypeScript fields are options, and
  the string-literal union types of the source are strings, as they are at run time.
\<close>

type_synonym byte = "8 word"
type_synonym buffer = "byte list"

record js_file =
  file_name :: string
  file_type :: string
  file_bits :: buffer

record js_blob =
  blob_type :: string
  blob_bits :: buffer

datatype pval =
    PStr string
  | PNum rat
  | PFile js_file
  | PFiles "js_file list"
  | PBlob js_blob
  | PUndefined

type_synonym payload = "(string \<times> pval) list"

text \<open>JavaScript truthiness of an optional string: defined and not the empty string.\<close>

fun truthy :: "string option \<Rightarrow> bool" where
  "truthy None = False"
| "truthy (Some s) = (s \<noteq> [])"

text \<open>\<^verbatim>\<open>if (params.k) requestBody.k = params.k\<close>\<close>

definition assign_if_truthy :: "string \<Rightarrow> string option \<Rightarrow> payload \<Rightarrow> payload" where
  "assign_if_truthy k v requestBody =
     (case v of
        None \<Rightarrow> requestBody
      | Some s \<Rightarrow> if s \<noteq> [] then AList.update k (PStr s) requestBody else requestBody)"

text \<open>\<^verbatim>\<open>if (params.k && [...].includes(params.k)) requestBody.k = params.k\<close>\<close>

definition assign_if_included :: "string \<Rightarrow> string list \<Rightarrow> string option \<Rightarrow> payload \<Rightarrow> payload" where
  "assign_if_included k allowed v requestBody =
     (case v of
        None \<Rightarrow> requestBody
      | Some s \<Rightarrow> if s \<noteq> [] \<and> s \<in> set allowed then AList.update k (PStr s) requestBody
                 else requestBody)"

text \<open>\<^verbatim>\<open>if (params.k !== undefined) requestBody.k = params.k\<close>\<close>

definition assign_if_defined :: "string \<Rightarrow> rat option \<Rightarrow> payload \<Rightarrow> payload" where
  "assign_if_defined k v requestBody =
     (case v of None \<Rightarrow> requestBody | Some x \<Rightarrow> AList.update k (PNum x) requestBody)"

section \<open>Parameter Resolver: generation\<close>

record generate_params =
  gen_prompt :: string
  gen_model :: string
  gen_size :: string
  gen_n :: rat
  gen_quality :: "string option"
  gen_style :: "string option"
  gen_response_format :: "string option"
  gen_output_format :: "string option"
  gen_output_compression :: "rat option"
  gen_background :: "string option"
  gen_moderation :: "string option"
  gen_user :: "string option"

text \<open>The request object of \<^verbatim>\<open>generateImage\<close> (server/lib/openai.ts), statement by statement.\<close>

definition generateImage_requestBody :: "generate_params \<Rightarrow> payload" where
  "generateImage_requestBody params =
     (let requestBody = [(''model'', PStr (gen_model params)),
                         (''prompt'', PStr (gen_prompt params)),
                         (''size'', PStr (gen_size params))];
          requestBody = (if gen_model params = ''dall-e-3''
                         then AList.update ''n'' (PNum 1) requestBody
                         else AList.update ''n'' (PNum (gen_n params)) requestBody);
          requestBody = (if gen_model params = ''dall-e-3''
                         then assign_if_truthy ''style'' (gen_style params)
                                (assign_if_included ''quality'' [''standard'', ''hd'']
                                   (gen_quality params) requestBody)
                         else requestBody);
          requestBody = (if gen_model params = ''gpt-image-1''
                         then assign_if_truthy ''moderation'' (gen_moderation params)
                                (assign_if_truthy ''background'' (gen_background params)
                                   (assign_if_defined ''output_compression''
                                      (gen_output_compression params)
                                      (assign_if_truthy ''output_format'' (gen_output_format params)
                                         (assign_if_included ''quality''
                                            [''auto'', ''high'', ''medium'', ''low'']
                                            (gen_quality params) requestBody))))
                         else requestBody);
          requestBody = (if gen_model params \<noteq> ''gpt-image-1''
                         then assign_if_truthy ''response_format'' (gen_response_format params)
                                requestBody
                         else requestBody);
          requestBody = assign_if_truthy ''user'' (gen_user params) requestBody
      in requestBody)"

text \<open>
  The optional request fields, and the ones each model accepts on the generation path
  (spec section 4.1: the basic model takes only the response format; the tiered model
  quality, style and the response format; the image-native model quality, output format,
  output compression, background and moderation, and no response format).
\<close>

definition optional_fields :: "string list" where
  "optional_fields =
     [''quality'', ''style'', ''response_format'', ''output_format'',
      ''output_compression'', ''background'', ''moderation'']"

definition generation_models :: "string list" where
  "generation_models = [''dall-e-2'', ''dall-e-3'', ''gpt-image-1'']"

definition accepted_fields :: "string \<Rightarrow> string list" where
  "accepted_fields m =
     (if m = ''dall-e-3'' then [''quality'', ''style'', ''response_format'']
      else if m = ''gpt-image-1''
      then [''quality'', ''output_format'', ''output_compression'', ''background'',
            ''moderation'']
      else [''response_format''])"

section \<open>Response Normalizer\<close>

text \<open>
  One element of the upstream response's \<^verbatim>\<open>data\<close> list. The source tests the
  fields by truthiness (\<^verbatim>\<open>if (image.url)\<close>), so a field counts as present when it
  is defined and not the empty string.
\<close>

record upstream_image =
  url :: "string option"
  b64_json :: "string option"

definition normalize_image :: "upstream_image \<Rightarrow> string + string" where
  "normalize_image img =
     (if truthy (url img) then Inr (the (url img))
      else if truthy (b64_json img)
      then Inr (''data:image/png;base64,'' @ the (b64_json img))
      else Inl ''Invalid response format from OpenAI API'')"

text \<open>\<^verbatim>\<open>Array.prototype.map\<close> with a callback that may throw: the first throw ends the map.\<close>

fun map_throw :: "('a \<Rightarrow> 'e + 'b) \<Rightarrow> 'a list \<Rightarrow> 'e + 'b list" where
  "map_throw f [] = Inr []"
| "map_throw f (x # xs) =
     (case f x of
        Inl e \<Rightarrow> Inl e
      | Inr y \<Rightarrow> (case map_throw f xs of Inl e \<Rightarrow> Inl e | Inr ys \<Rightarrow> Inr (y # ys)))"

text \<open>\<^verbatim>\<open>response.data?.map(...) || []\<close>: an undefined \<^verbatim>\<open>data\<close> gives the empty list.\<close>

definition normalize_response :: "upstream_image list option \<Rightarrow> string + string list" where
  "normalize_response data =
     (case data of None \<Rightarrow> Inr [] | Some images \<Rightarrow> map_throw normalize_image images)"

text \<open>The string emitted for an image that has a usable field.\<close>

definition image_string :: "upstream_image \<Rightarrow> string" where
  "image_string img =
     (if truthy (url img) then the (url img)
      else ''data:image/png;base64,'' @ the (b64_json img))"

section \<open>Network calls\<close>

text \<open>
  The calls that leave the server, each with the credential of the client that makes it.
  A handler returns its value together with the calls it made, in order.
\<close>

datatype net_call =
    Images_generate string payload
  | Images_edit string payload
  | Images_createVariation string payload
  | Gemini_generateContent string string string

text \<open>
  The upstream services are parameters: each answers a request with the thrown error's
  message (\<open>Inl\<close>) or with its result. For the image API the result is the response's
  \<^verbatim>\<open>data\<close> list, which may be undefined.
\<close>

type_synonym images_api = "string \<Rightarrow> payload \<Rightarrow> string + upstream_image list option"

text \<open>
  The wrapper \<^verbatim>\<open>try { ... } catch (error) { throw new Error(label + error.message) }\<close>
  around each exported function.
\<close>

definition rethrow :: "string \<Rightarrow> string + 'a \<Rightarrow> string + 'a" where
  "rethrow label r = (case r of Inl msg \<Rightarrow> Inl (label @ msg) | Inr v \<Rightarrow> Inr v)"

definition after_call :: "string + upstream_image list option \<Rightarrow> string + string list" where
  "after_call response =
     (case response of Inl msg \<Rightarrow> Inl msg | Inr data \<Rightarrow> normalize_response data)"

definition generateImage ::
  "images_api \<Rightarrow> generate_params \<Rightarrow> string \<Rightarrow> (string + string list) \<times> net_call list" where
  "generateImage images_generate params apiKey =
     (let requestBody = generateImage_requestBody params;
          response = images_generate apiKey requestBody
      in (rethrow ''Failed to generate image: '' (after_call response),
          [Images_generate apiKey requestBody]))"

section \<open>File/MIME Classifier and the edit path\<close>

text \<open>\<^verbatim>\<open>buffer.toString('hex')\<close>: two lower-case hexadecimal digits per byte.\<close>

definition hex_digit :: "nat \<Rightarrow> char" where
  "hex_digit d = ''0123456789abcdef'' ! d"

definition toString_hex :: "buffer \<Rightarrow> string" where
  "toString_hex buf =
     concat (map (\<lambda>b. [hex_digit (unat b div 16), hex_digit (unat b mod 16)]) buf)"

definition startsWith :: "string \<Rightarrow> string \<Rightarrow> bool" where
  "startsWith s p = prefix p s"

definition mimeType_of :: "buffer \<Rightarrow> string" where
  "mimeType_of buf =
     (if startsWith (toString_hex buf) ''89504e47'' then ''image/png''
      else if startsWith (toString_hex buf) ''ffd8ffe'' then ''image/jpeg''
      else ''image/webp'')"

text \<open>\<^verbatim>\<open>s.split(c)\<close> for a one-character separator.\<close>

fun split_on :: "char \<Rightarrow> string \<Rightarrow> string list" where
  "split_on c [] = [[]]"
| "split_on c (x # xs) =
     (if x = c then [] # split_on c xs
      else (case split_on c xs of [] \<Rightarrow> [[x]] | p # ps \<Rightarrow> (x # p) # ps))"

text \<open>An array element inside a template literal: out of range it prints as undefined.\<close>

definition element_text :: "string list \<Rightarrow> nat \<Rightarrow> string" where
  "element_text xs i = (if i < length xs then xs ! i else ''undefined'')"

text \<open>A non-negative index inside a template literal: its decimal digits.\<close>

fun decimal :: "nat \<Rightarrow> string" where
  "decimal n =
     (if n < 10 then [''0123456789'' ! n]
      else decimal (n div 10) @ [''0123456789'' ! (n mod 10)])"

declare decimal.simps [simp del]

text \<open>The callback of \<^verbatim>\<open>imageFiles.map((buffer, index) => ...)\<close>.\<close>

definition convert_image :: "nat \<Rightarrow> buffer \<Rightarrow> js_file" where
  "convert_image index buf =
     (let mimeType = mimeType_of buf
      in \<lparr>file_name = ''image'' @ decimal index @ ''.''
                        @ element_text (split_on CHR ''/'' mimeType) 1,
          file_type = mimeType,
          file_bits = buf\<rparr>)"

definition imageFiles_converted :: "buffer list \<Rightarrow> js_file list" where
  "imageFiles_converted imageFiles =
     map (\<lambda>(index, buf). convert_image index buf) (enumerate 0 imageFiles)"

definition maskFile_converted :: "buffer option \<Rightarrow> js_file option" where
  "maskFile_converted maskFile =
     (case maskFile of
        None \<Rightarrow> None
      | Some m \<Rightarrow> Some \<lparr>file_name = ''mask.png'', file_type = ''image/png'', file_bits = m\<rparr>)"

text \<open>\<^verbatim>\<open>imageFiles_converted[0]\<close>: undefined when no file was converted.\<close>

definition first_file :: "js_file list \<Rightarrow> pval" where
  "first_file files = (case files of [] \<Rightarrow> PUndefined | f # _ \<Rightarrow> PFile f)"

text \<open>\<^verbatim>\<open>if (maskFile_converted) requestBody.mask = maskFile_converted\<close>\<close>

definition assign_mask :: "js_file option \<Rightarrow> payload \<Rightarrow> payload" where
  "assign_mask mask_file requestBody =
     (case mask_file of None \<Rightarrow> requestBody | Some f \<Rightarrow> AList.update ''mask'' (PFile f) requestBody)"

record edit_params =
  edit_prompt :: string
  edit_model :: string
  edit_size :: string
  edit_n :: rat
  edit_quality :: "string option"
  edit_response_format :: "string option"
  edit_output_format :: "string option"
  edit_output_compression :: "rat option"
  edit_background :: "string option"
  edit_user :: "string option"

text \<open>The request object of \<^verbatim>\<open>editImage\<close>, statement by statement.\<close>

definition editImage_requestBody :: "buffer list \<Rightarrow> buffer option \<Rightarrow> edit_params \<Rightarrow> payload" where
  "editImage_requestBody imageFiles maskFile params =
     (let files = imageFiles_converted imageFiles;
          mask_file = maskFile_converted maskFile;
          requestBody = [(''prompt'', PStr (edit_prompt params)),
                         (''model'', PStr (edit_model params)),
                         (''size'', PStr (edit_size params)),
                         (''n'', PNum (edit_n params))];
          requestBody = (if edit_model params = ''dall-e-2''
                         then assign_mask mask_file
                                (AList.update ''image'' (first_file files) requestBody)
                         else assign_mask mask_file
                                (AList.update ''image''
                                   (if length files = 1 then first_file files else PFiles files)
                                   requestBody));
          requestBody = (if edit_model params = ''gpt-image-1''
                         then assign_if_truthy ''background'' (edit_background params)
                                (assign_if_defined ''output_compression''
                                   (edit_output_compression params)
                                   (assign_if_truthy ''output_format'' (edit_output_format params)
                                      (assign_if_included ''quality''
                                         [''auto'', ''high'', ''medium'', ''low'']
                                         (edit_quality params) requestBody)))
                         else requestBody);
          requestBody = (if edit_model params = ''dall-e-2''
                         then assign_if_truthy ''response_format'' (edit_response_format params)
                                requestBody
                         else requestBody);
          requestBody = assign_if_truthy ''user'' (edit_user params) requestBody
      in requestBody)"

definition editImage ::
  "images_api \<Rightarrow> buffer list \<Rightarrow> buffer option \<Rightarrow> edit_params \<Rightarrow> string
     \<Rightarrow> (string + string list) \<times> net_call list" where
  "editImage images_edit imageFiles maskFile params apiKey =
     (let requestBody = editImage_requestBody imageFiles maskFile params;
          response = images_edit apiKey requestBody
      in (rethrow ''Failed to edit image: '' (after_call response),
          [Images_edit apiKey requestBody]))"

section \<open>Variations\<close>

record variation_params =
  var_n :: rat
  var_size :: string
  var_response_format :: string
  var_user :: "string option"

definition createImageVariations_requestBody :: "buffer \<Rightarrow> variation_params \<Rightarrow> payload" where
  "createImageVariations_requestBody imageFile params =
     (let imageBlob = \<lparr>blob_type = ''image/png'', blob_bits = imageFile\<rparr>;
          requestBody = [(''image'', PBlob imageBlob),
                         (''n'', PNum (var_n params)),
                         (''size'', PStr (var_size params)),
                         (''response_format'', PStr (var_response_format params))];
          requestBody = assign_if_truthy ''user'' (var_user params) requestBody
      in requestBody)"

definition createImageVariations ::
  "images_api \<Rightarrow> buffer \<Rightarrow> variation_params \<Rightarrow> string
     \<Rightarrow> (string + string list) \<times> net_call list" where
  "createImageVariations images_createVariation imageFile params apiKey =
     (let requestBody = createImageVariations_requestBody imageFile params;
          response = images_createVariation apiKey requestBody
      in (rethrow ''Failed to create image variations: '' (after_call response),
          [Images_createVariation apiKey requestBody]))"

section \<open>Request validation\<close>

text \<open>
  A parsed JSON request body. The schemas of shared/schema.ts are written with the zod
  combinators; each combinator used there is modelled by what it accepts: a schema takes
  the path of a key and the value found there (\<open>None\<close> when the key is missing) and
  returns the issues it raises or the parsed value. An object schema collects the issues
  of all its keys, in key order, and ignores unknown keys.
\<close>

datatype json =
    JNull
  | JBool bool
  | JNum rat
  | JStr string
  | JArr "json list"
  | JObj "(string \<times> json) list"

datatype issue_code = invalid_type | invalid_enum_value | too_small | too_big

type_synonym issue = "string list \<times> issue_code"

type_synonym 'a schema = "string list \<Rightarrow> json option \<Rightarrow> issue list + 'a"

definition z_string :: "string schema" where
  "z_string path v =
     (case v of Some (JStr s) \<Rightarrow> Inr s | _ \<Rightarrow> Inl [(path, invalid_type)])"

definition z_string_min1 :: "string schema" where
  "z_string_min1 path v =
     (case z_string path v of
        Inl issues \<Rightarrow> Inl issues
      | Inr s \<Rightarrow> if length s < 1 then Inl [(path, too_small)] else Inr s)"

definition z_enum :: "string list \<Rightarrow> string schema" where
  "z_enum options path v =
     (case v of
        Some (JStr s) \<Rightarrow>
          if s \<in> set options then Inr s else Inl [(path, invalid_enum_value)]
      | _ \<Rightarrow> Inl [(path, invalid_type)])"

definition z_number_min_max :: "rat \<Rightarrow> rat \<Rightarrow> rat schema" where
  "z_number_min_max lo hi path v =
     (case v of
        Some (JNum x) \<Rightarrow>
          if x < lo then Inl [(path, too_small)]
          else if hi < x then Inl [(path, too_big)]
          else Inr x
      | _ \<Rightarrow> Inl [(path, invalid_type)])"

definition z_optional :: "'a schema \<Rightarrow> 'a option schema" where
  "z_optional s path v =
     (case v of
        None \<Rightarrow> Inr None
      | Some _ \<Rightarrow> (case s path v of Inl issues \<Rightarrow> Inl issues | Inr x \<Rightarrow> Inr (Some x)))"

definition z_default :: "'a \<Rightarrow> 'a schema \<Rightarrow> 'a schema" where
  "z_default d s path v = (case v of None \<Rightarrow> Inr d | Some _ \<Rightarrow> s path v)"



text \<open>Two results of one object schema: both must succeed, and the issues add up.\<close>

definition ap :: "issue list + ('a \<Rightarrow> 'b) \<Rightarrow> issue list + 'a \<Rightarrow> issue list + 'b" where
  "ap rf rx =
     (case rf of
        Inl issues \<Rightarrow> (case rx of Inl others \<Rightarrow> Inl (issues @ others) | Inr _ \<Rightarrow> Inl issues)
      | Inr f \<Rightarrow> (case rx of Inl others \<Rightarrow> Inl others | Inr x \<Rightarrow> Inr (f x)))"

text \<open>
  The keys from \<^verbatim>\<open>model\<close> to \<^verbatim>\<open>user\<close>, which generateImageSchema,
  flowerGenerationSchema and batchFlowerGenerationSchema declare alike but for the default
  of \<^verbatim>\<open>size\<close>.
\<close>

record common_fields =
  c_model :: string
  c_size :: string
  c_n :: rat
  c_quality :: "string option"
  c_style :: "string option"
  c_response_format :: "string option"
  c_output_format :: "string option"
  c_output_compression :: "rat option"
  c_background :: "string option"
  c_moderation :: "string option"
  c_user :: "string option"

definition make_common ::
  "string \<Rightarrow> string \<Rightarrow> rat \<Rightarrow> string option \<Rightarrow> string option \<Rightarrow> string option
     \<Rightarrow> string option \<Rightarrow> rat option \<Rightarrow> string option \<Rightarrow> string option \<Rightarrow> string option
     \<Rightarrow> common_fields" where
  "make_common m sz cnt quality style response_format output_format output_compression
     background moderation user =
     \<lparr>c_model = m, c_size = sz, c_n = cnt, c_quality = quality, c_style = style,
      c_response_format = response_format, c_output_format = output_format,
      c_output_compression = output_compression, c_background = background,
      c_moderation = moderation, c_user = user\<rparr>"

definition common_schema :: "string \<Rightarrow> (string \<Rightarrow> json option) \<Rightarrow> issue list + common_fields" where
  "common_schema size_default obj =
     ap (ap (ap (ap (ap (ap (ap (ap (ap (ap (ap (Inr make_common)
       (z_default ''dall-e-2''
          (z_enum [''dall-e-2'', ''dall-e-3'', ''gpt-image-1'',
                   ''gemini-2.5-flash-image-preview''])
          [''model''] (obj ''model'')))
       (z_default size_default z_string [''size''] (obj ''size'')))
       (z_default 1 (z_number_min_max 1 10) [''n''] (obj ''n'')))
       (z_optional (z_enum [''standard'', ''hd'', ''auto'', ''high'', ''medium'', ''low''])
          [''quality''] (obj ''quality'')))
       (z_optional (z_enum [''vivid'', ''natural'']) [''style''] (obj ''style'')))
       (z_optional (z_enum [''url'', ''b64_json''])
          [''response_format''] (obj ''response_format'')))
       (z_optional (z_enum [''png'', ''jpeg'', ''webp''])
          [''output_format''] (obj ''output_format'')))
       (z_optional (z_number_min_max 0 100)
          [''output_compression''] (obj ''output_compression'')))
       (z_optional (z_enum [''auto'', ''transparent'', ''opaque''])
          [''background''] (obj ''background'')))
       (z_optional (z_enum [''auto'', ''low'']) [''moderation''] (obj ''moderation'')))
       (z_optional z_string [''user''] (obj ''user''))"

text \<open>
  \<^verbatim>\<open>{ ...fields, prompt, model }\<close>: the object handed to \<^verbatim>\<open>generateImage\<close>.
\<close>

definition openaiData :: "string \<Rightarrow> string \<Rightarrow> common_fields \<Rightarrow> generate_params" where
  "openaiData p m shared =
     \<lparr>gen_prompt = p, gen_model = m, gen_size = c_size shared, gen_n = c_n shared,
      gen_quality = c_quality shared, gen_style = c_style shared,
      gen_response_format = c_response_format shared,
      gen_output_format = c_output_format shared,
      gen_output_compression = c_output_compression shared,
      gen_background = c_background shared, gen_moderation = c_moderation shared,
      gen_user = c_user shared\<rparr>"

definition generateImageSchema :: "json \<Rightarrow> issue list + generate_params" where
  "generateImageSchema input =
     (case input of
        JObj kvs \<Rightarrow>
          ap (ap (Inr (\<lambda>p shared. openaiData p (c_model shared) shared))
                (z_string_min1 [''prompt''] (map_of kvs ''prompt'')))
             (common_schema ''512x512'' (map_of kvs))
      | _ \<Rightarrow> Inl [([], invalid_type)])"









section \<open>The HTTP handlers\<close>

text \<open>
  What a handler depends on besides the request: the two credentials of the process
  environment, the two upstream services, the template table with its substitution
  function, and the text of a validation error. The template table and the substitution
  are parameters because the handlers only look a template up by its id and pass the
  result of the substitution on; like every call it may throw, which is the \<open>Inl\<close>
  result.
\<close>

record flower_template =
  template_id :: string
  template_name :: string
  template_description :: string
  template_variables :: "(string \<times> string \<times> string) list"
  promptTemplate :: string

record env =
  OPENAI_API_KEY :: "string option"
  GEMINI_API_KEY :: "string option"
  openai_images :: images_api
  gemini_generateContent :: "string \<Rightarrow> string \<Rightarrow> string \<Rightarrow> string + string"
  FLOWER_TEMPLATES :: "flower_template list"
  processTemplate :: "flower_template \<Rightarrow> (string \<times> string) list \<Rightarrow> string + string"
  zod_message :: "issue list \<Rightarrow> string"

record batch_result =
  result_referenceImageId :: string
  result_variables :: "(string \<times> string) list"
  result_processedPrompt :: string
  result_imageUrls :: "string list"
  result_error :: "string option"

datatype response_body =
    ImageUrls "string list"
  | Results "batch_result list"
  | Message string

record response =
  res_status :: nat
  res_body :: response_body

text \<open>\<^verbatim>\<open>(error as Error).message || fallback\<close>\<close>

definition message_or :: "string \<Rightarrow> string \<Rightarrow> string" where
  "message_or msg fallback = (if msg = [] then fallback else msg)"

definition error_response :: "nat \<Rightarrow> string \<Rightarrow> response" where
  "error_response code msg = \<lparr>res_status = code, res_body = Message msg\<rparr>"

text \<open>\<^verbatim>\<open>res.json({ imageUrls })\<close>, or the handler's catch block.\<close>

definition respond_images :: "string \<Rightarrow> string + string list \<Rightarrow> response" where
  "respond_images fallback r =
     (case r of
        Inl msg \<Rightarrow> error_response 500 (message_or msg fallback)
      | Inr urls \<Rightarrow> \<lparr>res_status = 200, res_body = ImageUrls urls\<rparr>)"

text \<open>\<^verbatim>\<open>!apiKey || !apiKey.startsWith("sk-")\<close>: the key the handler goes on with.\<close>

definition configured_key :: "string option \<Rightarrow> string option" where
  "configured_key k =
     (case k of
        None \<Rightarrow> None
      | Some s \<Rightarrow> if s \<noteq> [] \<and> startsWith s ''sk-'' then Some s else None)"


subsection \<open>POST /api/generate\<close>

definition api_generate :: "env \<Rightarrow> json \<Rightarrow> response \<times> net_call list" where
  "api_generate env generationData =
     (case generateImageSchema generationData of
        Inl issues \<Rightarrow>
          (error_response 500
             (message_or (zod_message env issues)
                ''Failed to generate image. Please check your prompt and try again.''), [])
      | Inr validatedData \<Rightarrow>
          (case configured_key (OPENAI_API_KEY env) of
             None \<Rightarrow> (error_response 500 ''OpenAI API key not configured on server'', [])
           | Some apiKey \<Rightarrow>
               if gen_model validatedData = ''gemini-2.5-flash-image-preview''
               then (error_response 400
                       ''Gemini model is only available for flower generation'', [])
               else (let (result, calls) =
                           generateImage (openai_images env) validatedData apiKey
                     in (respond_images
                           ''Failed to generate image. Please check your prompt and try again.''
                           result, calls))))"

subsection \<open>The secondary vendor's text model\<close>




subsection \<open>POST /api/flower-generate\<close>



subsection \<open>POST /api/batch-flower-generate\<close>






section \<open>Notions of the specification\<close>





text \<open>
  The violations the specification lists: a missing prompt, a value outside its
  enumeration, a count outside 1..10, a compression outside 0..100.
\<close>

definition bad_enum :: "string list \<Rightarrow> json option \<Rightarrow> bool" where
  "bad_enum options v = (case v of Some (JStr s) \<Rightarrow> s \<notin> set options | _ \<Rightarrow> False)"

definition out_of_range :: "rat \<Rightarrow> rat \<Rightarrow> json option \<Rightarrow> bool" where
  "out_of_range lo hi v = (case v of Some (JNum x) \<Rightarrow> x < lo \<or> hi < x | _ \<Rightarrow> False)"

definition listed_violation :: "json \<Rightarrow> bool" where
  "listed_violation input =
     (case input of
        JObj kvs \<Rightarrow>
          map_of kvs ''prompt'' = None
        \<or> bad_enum [''dall-e-2'', ''dall-e-3'', ''gpt-image-1'',
                     ''gemini-2.5-flash-image-preview''] (map_of kvs ''model'')
        \<or> out_of_range 1 10 (map_of kvs ''n'')
        \<or> bad_enum [''standard'', ''hd'', ''auto'', ''high'', ''medium'', ''low'']
             (map_of kvs ''quality'')
        \<or> bad_enum [''vivid'', ''natural''] (map_of kvs ''style'')
        \<or> bad_enum [''url'', ''b64_json''] (map_of kvs ''response_format'')
        \<or> bad_enum [''png'', ''jpeg'', ''webp''] (map_of kvs ''output_format'')
        \<or> out_of_range 0 100 (map_of kvs ''output_compression'')
        \<or> bad_enum [''auto'', ''transparent'', ''opaque''] (map_of kvs ''background'')
        \<or> bad_enum [''auto'', ''low''] (map_of kvs ''moderation'')
      | _ \<Rightarrow> False)"

section \<open>Example requests\<close>

definition native_request :: generate_params where
  "native_request =
     \<lparr>gen_prompt = ''x'', gen_model = ''gpt-image-1'', gen_size = ''1024x1024'', gen_n = 2,
      gen_quality = Some ''high'', gen_style = Some ''vivid'',
      gen_response_format = Some ''url'', gen_output_format = Some ''png'',
      gen_output_compression = None, gen_background = None, gen_moderation = None,
      gen_user = Some ''''\<rparr>"

definition url_image :: upstream_image where
  "url_image = \<lparr>url = Some ''https://img.example/a.png'', b64_json = None\<rparr>"

definition b64_image :: upstream_image where
  "b64_image = \<lparr>url = None, b64_json = Some ''iVBORw0KGgo=''\<rparr>"

definition bare_image :: upstream_image where
  "bare_image = \<lparr>url = None, b64_json = None\<rparr>"

definition png_buffer :: buffer where
  "png_buffer = [0x89, 0x50, 0x4E, 0x47, 0x0D, 0x0A, 0x1A, 0x0A]"

definition jpeg_buffer :: buffer where
  "jpeg_buffer = [0xFF, 0xD8, 0xFF, 0xE0, 0x00, 0x10]"

definition short_buffer :: buffer where
  "short_buffer = [0xFF, 0xD8, 0xFF]"

definition native_edit :: edit_params where
  "native_edit =
     \<lparr>edit_prompt = ''add a hat'', edit_model = ''gpt-image-1'', edit_size = ''1024x1024'',
      edit_n = 1, edit_quality = None, edit_response_format = Some ''url'',
      edit_output_format = None, edit_output_compression = None, edit_background = None,
      edit_user = None\<rparr>"

definition basic_edit :: edit_params where
  "basic_edit =
     \<lparr>edit_prompt = ''add a hat'', edit_model = ''dall-e-2'', edit_size = ''1024x1024'',
      edit_n = 1, edit_quality = None, edit_response_format = Some ''url'',
      edit_output_format = None, edit_output_compression = None, edit_background = None,
      edit_user = None\<rparr>"

definition three_variations :: variation_params where
  "three_variations =
     \<lparr>var_n = 3, var_size = ''512x512'', var_response_format = ''url'', var_user = Some ''''\<rparr>"




definition example_template :: flower_template where
  "example_template =
     \<lparr>template_id = ''single-branch'', template_name = ''single branch'',
      template_description = ''one branch with one bloom'',
      template_variables = [(''flower_name'', ''name of the flower'', ''Yellow Lily'')],
      promptTemplate = ''SUBJECT: single [{{flower_name}}] branch''\<rparr>"

definition example_env :: env where
  "example_env =
     \<lparr>OPENAI_API_KEY = Some ''sk-test'', GEMINI_API_KEY = None,
      openai_images = (\<lambda>k p. Inr (Some [url_image])),
      gemini_generateContent = (\<lambda>k m t. Inr ''a detailed prompt''),
      FLOWER_TEMPLATES = [example_template],
      processTemplate = (\<lambda>t vs. Inr ''SUBJECT: single [Rose] branch''),
      zod_message = (\<lambda>issues. ''validation failed'')\<rparr>"


definition count_eleven :: json where
  "count_eleven = JObj [(''prompt'', JStr ''a cat''), (''n'', JNum 11)]"

definition missing_prompt :: json where
  "missing_prompt = JObj [(''model'', JStr ''dall-e-3'')]"

definition bad_model :: json where
  "bad_model = JObj [(''prompt'', JStr ''a cat''), (''model'', JStr ''dall-e-4'')]"

definition compression_high :: json where
  "compression_high =
     JObj [(''prompt'', JStr ''a cat''), (''model'', JStr ''gpt-image-1''),
           (''output_compression'', JNum 101)]"










section \<open>Properties of the generation payload\<close>

lemma map_of_assign_if_truthy:
  "map_of (assign_if_truthy k v body) k' =
     (if k' = k \<and> truthy v then Some (PStr (the v)) else map_of body k')"
  by (cases v) (simp_all add: assign_if_truthy_def update_conv')

lemma map_of_assign_if_included:
  "map_of (assign_if_included k allowed v body) k' =
     (if k' = k \<and> truthy v \<and> the v \<in> set allowed then Some (PStr (the v)) else map_of body k')"
  by (cases v) (simp_all add: assign_if_included_def update_conv')

lemma map_of_assign_if_defined:
  "map_of (assign_if_defined k v body) k' =
     (if k' = k \<and> v \<noteq> None then Some (PNum (the v)) else map_of body k')"
  by (cases v) (simp_all add: assign_if_defined_def update_conv')

lemmas map_of_assign =
  map_of_assign_if_truthy map_of_assign_if_included map_of_assign_if_defined update_conv'

lemma truthy_the: "truthy v \<Longrightarrow> the v \<noteq> []"
  by (cases v) simp_all

text \<open>
  C1. For model dall-e-3 the payload built for the upstream image API has n = 1 whatever
  n the request carries; for every other model the payload's n is the requested n.
\<close>

theorem generateImage_n:
  "map_of (generateImage_requestBody params) ''n'' =
     Some (PNum (if gen_model params = ''dall-e-3'' then 1 else gen_n params))"
  by (simp add: generateImage_requestBody_def Let_def map_of_assign)

theorem generateImage_n_witness:
  "map_of (generateImage_requestBody
      \<lparr>gen_prompt = ''x'', gen_model = ''dall-e-3'', gen_size = ''1024x1024'', gen_n = 5,
       gen_quality = None, gen_style = None, gen_response_format = None,
       gen_output_format = None, gen_output_compression = None, gen_background = None,
       gen_moderation = None, gen_user = None\<rparr>) ''n'' = Some (PNum 1)"
  by (simp add: generateImage_n)

text \<open>The value of each optional key of the generation payload.\<close>

lemma body_quality:
  "map_of (generateImage_requestBody params) ''quality'' =
     (if gen_model params = ''dall-e-3'' \<and> truthy (gen_quality params)
           \<and> the (gen_quality params) \<in> set [''standard'', ''hd'']
      then Some (PStr (the (gen_quality params)))
      else if gen_model params = ''gpt-image-1'' \<and> truthy (gen_quality params)
           \<and> the (gen_quality params) \<in> set [''auto'', ''high'', ''medium'', ''low'']
      then Some (PStr (the (gen_quality params)))
      else None)"
  by (simp add: generateImage_requestBody_def Let_def map_of_assign)

lemma body_style:
  "map_of (generateImage_requestBody params) ''style'' =
     (if gen_model params = ''dall-e-3'' \<and> truthy (gen_style params)
      then Some (PStr (the (gen_style params))) else None)"
  by (simp add: generateImage_requestBody_def Let_def map_of_assign)

lemma body_response_format:
  "map_of (generateImage_requestBody params) ''response_format'' =
     (if gen_model params \<noteq> ''gpt-image-1'' \<and> truthy (gen_response_format params)
      then Some (PStr (the (gen_response_format params))) else None)"
  by (simp add: generateImage_requestBody_def Let_def map_of_assign)

lemma body_output_format:
  "map_of (generateImage_requestBody params) ''output_format'' =
     (if gen_model params = ''gpt-image-1'' \<and> truthy (gen_output_format params)
      then Some (PStr (the (gen_output_format params))) else None)"
  by (simp add: generateImage_requestBody_def Let_def map_of_assign)

lemma body_output_compression:
  "map_of (generateImage_requestBody params) ''output_compression'' =
     (if gen_model params = ''gpt-image-1'' \<and> gen_output_compression params \<noteq> None
      then Some (PNum (the (gen_output_compression params))) else None)"
  by (simp add: generateImage_requestBody_def Let_def map_of_assign)

lemma body_background:
  "map_of (generateImage_requestBody params) ''background'' =
     (if gen_model params = ''gpt-image-1'' \<and> truthy (gen_background params)
      then Some (PStr (the (gen_background params))) else None)"
  by (simp add: generateImage_requestBody_def Let_def map_of_assign)

lemma body_moderation:
  "map_of (generateImage_requestBody params) ''moderation'' =
     (if gen_model params = ''gpt-image-1'' \<and> truthy (gen_moderation params)
      then Some (PStr (the (gen_moderation params))) else None)"
  by (simp add: generateImage_requestBody_def Let_def map_of_assign)

lemmas body_optional = body_quality body_style body_response_format body_output_format
  body_output_compression body_background body_moderation

lemma optional_fields_cases:
  assumes "k \<in> set optional_fields"
  shows "k = ''quality'' \<or> k = ''style'' \<or> k = ''response_format''
    \<or> k = ''output_format'' \<or> k = ''output_compression'' \<or> k = ''background''
    \<or> k = ''moderation''"
  using assms by (simp add: optional_fields_def)

lemma generation_models_cases:
  "m \<in> set generation_models \<Longrightarrow> m = ''dall-e-2'' \<or> m = ''dall-e-3'' \<or> m = ''gpt-image-1''"
  by (simp add: generation_models_def)

lemma generateImage_field_omitted:
  assumes "gen_model params \<in> set generation_models"
    and "k \<in> set optional_fields" and "k \<notin> set (accepted_fields (gen_model params))"
  shows "map_of (generateImage_requestBody params) k = None"
  using optional_fields_cases [OF assms(2)] generation_models_cases [OF assms(1)] assms(3)
  by (elim disjE) (simp_all add: body_optional accepted_fields_def)

lemma generateImage_never_null_or_empty:
  assumes "k \<in> set optional_fields"
  shows "map_of (generateImage_requestBody params) k \<noteq> Some PUndefined
       \<and> map_of (generateImage_requestBody params) k \<noteq> Some (PStr [])"
  using optional_fields_cases [OF assms]
  by (elim disjE) (simp_all add: body_optional truthy_the)

text \<open>
  C2. For model gpt-image-1 the payload has no response_format key, whatever the request
  carries; and for each of the three models every optional field the model does not
  accept is absent from the payload. No optional field is ever present with an undefined
  or empty value.
\<close>

theorem generateImage_omits_inapplicable:
  "(gen_model params = ''gpt-image-1'' \<longrightarrow>
      map_of (generateImage_requestBody params) ''response_format'' = None)
   \<and> (gen_model params \<in> set generation_models \<longrightarrow>
        (\<forall>k \<in> set optional_fields. k \<notin> set (accepted_fields (gen_model params)) \<longrightarrow>
           map_of (generateImage_requestBody params) k = None))
   \<and> (\<forall>k \<in> set optional_fields.
        map_of (generateImage_requestBody params) k \<noteq> Some PUndefined
      \<and> map_of (generateImage_requestBody params) k \<noteq> Some (PStr []))"
proof (intro conjI impI ballI)
  assume "gen_model params = ''gpt-image-1''"
  then show "map_of (generateImage_requestBody params) ''response_format'' = None"
    by (simp add: body_response_format)
next
  fix k
  assume "gen_model params \<in> set generation_models" "k \<in> set optional_fields"
    "k \<notin> set (accepted_fields (gen_model params))"
  then show "map_of (generateImage_requestBody params) k = None"
    by (rule generateImage_field_omitted)
next
  fix k assume "k \<in> set optional_fields"
  from generateImage_never_null_or_empty [OF this]
  show "map_of (generateImage_requestBody params) k \<noteq> Some PUndefined" ..
next
  fix k assume "k \<in> set optional_fields"
  from generateImage_never_null_or_empty [OF this]
  show "map_of (generateImage_requestBody params) k \<noteq> Some (PStr [])" ..
qed

theorem generateImage_omits_inapplicable_witness:
  "map_of (generateImage_requestBody native_request) ''response_format'' = None
   \<and> map_of (generateImage_requestBody native_request) ''style'' = None
   \<and> map_of (generateImage_requestBody native_request) ''quality'' = Some (PStr ''high'')
   \<and> map_of (generateImage_requestBody native_request) ''quality'' \<noteq> Some (PStr [])"
proof -
  have m: "gen_model native_request = ''gpt-image-1''" by (simp add: native_request_def)
  have g: "gen_model native_request \<in> set generation_models"
    by (simp add: native_request_def generation_models_def)
  have s: "''style'' \<in> set optional_fields" by (simp add: optional_fields_def)
  have q: "''quality'' \<in> set optional_fields" by (simp add: optional_fields_def)
  have n: "''style'' \<notin> set (accepted_fields (gen_model native_request))"
    by (simp add: native_request_def accepted_fields_def)
  note t = generateImage_omits_inapplicable [of native_request]
  from t m have 1: "map_of (generateImage_requestBody native_request) ''response_format'' = None"
    by (elim conjE) simp
  from t g s n have 2: "map_of (generateImage_requestBody native_request) ''style'' = None"
    by (elim conjE) (drule (1) mp, drule (1) bspec, drule (1) mp)
  have 3: "map_of (generateImage_requestBody native_request) ''quality'' = Some (PStr ''high'')"
    by (simp add: body_quality native_request_def)
  from t q have 4: "map_of (generateImage_requestBody native_request) ''quality'' \<noteq> Some (PStr [])"
    by (elim conjE) (drule (1) bspec, simp)
  from 1 2 3 4 show ?thesis by (intro conjI)
qed

section \<open>Properties of the Response Normalizer\<close>

lemma normalize_image_ok:
  "truthy (url img) \<or> truthy (b64_json img) \<Longrightarrow> normalize_image img = Inr (image_string img)"
  by (cases "truthy (url img)") (simp_all add: normalize_image_def image_string_def)

lemma normalize_image_fail:
  "\<not> truthy (url img) \<Longrightarrow> \<not> truthy (b64_json img) \<Longrightarrow>
     normalize_image img = Inl ''Invalid response format from OpenAI API''"
  by (simp add: normalize_image_def)

lemma map_throw_all:
  "(\<And>x. x \<in> set xs \<Longrightarrow> f x = Inr (g x)) \<Longrightarrow> map_throw f xs = Inr (map g xs)"
  by (induction xs) simp_all

lemma map_throw_some:
  assumes "x \<in> set xs" and "f x = Inl e"
    and "\<And>y e'. y \<in> set xs \<Longrightarrow> f y = Inl e' \<Longrightarrow> e' = e"
  shows "map_throw f xs = Inl e"
  using assms
proof (induction xs)
  case Nil
  then show ?case by simp
next
  case (Cons a xs)
  show ?case
  proof (cases "f a")
    case (Inl e')
    have "e' = e" by (rule Cons.prems(3) [of a e']) (simp_all add: Inl)
    with Inl show ?thesis by simp
  next
    case (Inr y)
    with Cons.prems(1,2) have m: "x \<in> set xs" by auto
    have "map_throw f xs = Inl e"
    proof (rule Cons.IH [OF m Cons.prems(2)])
      fix y e' assume "y \<in> set xs" "f y = Inl e'"
      then show "e' = e" using Cons.prems(3) [of y e'] by simp
    qed
    with Inr show ?thesis by simp
  qed
qed

lemma normalize_all:
  assumes "\<forall>img \<in> set images. truthy (url img) \<or> truthy (b64_json img)"
  shows "normalize_response (Some images) = Inr (map image_string images)"
  using assms by (simp add: normalize_response_def map_throw_all normalize_image_ok)

lemma normalize_image_Inl:
  "normalize_image img = Inl e \<Longrightarrow> e = ''Invalid response format from OpenAI API''"
  by (simp add: normalize_image_def split: if_splits)

lemma normalize_some:
  assumes "\<exists>img \<in> set images. \<not> truthy (url img) \<and> \<not> truthy (b64_json img)"
  shows "normalize_response (Some images) = Inl ''Invalid response format from OpenAI API''"
proof -
  from assms obtain img where i: "img \<in> set images" "\<not> truthy (url img)" "\<not> truthy (b64_json img)"
    by blast
  have "map_throw normalize_image images = Inl ''Invalid response format from OpenAI API''"
    using i(1) normalize_image_fail [OF i(2,3)]
  proof (rule map_throw_some)
    fix y e' assume "normalize_image y = Inl e'"
    then show "e' = ''Invalid response format from OpenAI API''" by (rule normalize_image_Inl)
  qed
  then show ?thesis by (simp add: normalize_response_def)
qed

text \<open>
  C3. The Response Normalizer keeps length and order. An element whose url is present
  (the source's own test: defined and not empty) gives that url unchanged; an element
  without a url whose b64_json is present gives the string data:image/png;base64,
  followed by the payload; an element with neither makes the whole call fail with the
  invalid-response-format error; the empty list gives the empty list.
\<close>

theorem normalize_response_images:
  "((\<forall>img \<in> set images. truthy (url img) \<or> truthy (b64_json img)) \<longrightarrow>
       normalize_response (Some images) = Inr (map image_string images)
     \<and> length (map image_string images) = length images
     \<and> (\<forall>i < length images.
          (truthy (url (images ! i)) \<longrightarrow>
             map image_string images ! i = the (url (images ! i)))
        \<and> (\<not> truthy (url (images ! i)) \<longrightarrow>
             map image_string images ! i
               = ''data:image/png;base64,'' @ the (b64_json (images ! i)))))
   \<and> ((\<exists>img \<in> set images. \<not> truthy (url img) \<and> \<not> truthy (b64_json img)) \<longrightarrow>
       normalize_response (Some images) = Inl ''Invalid response format from OpenAI API''
     \<and> (images_generate apiKey (generateImage_requestBody params) = Inr (Some images) \<longrightarrow>
          fst (generateImage images_generate params apiKey)
            = Inl ''Failed to generate image: Invalid response format from OpenAI API''))
   \<and> normalize_response (Some []) = Inr []"
proof (intro conjI impI allI)
  assume a: "\<forall>img \<in> set images. truthy (url img) \<or> truthy (b64_json img)"
  then show "normalize_response (Some images) = Inr (map image_string images)"
    by (rule normalize_all)
next
  show "length (map image_string images) = length images" by simp
next
  fix i assume "i < length images" "truthy (url (images ! i))"
  then show "map image_string images ! i = the (url (images ! i))"
    by (simp add: image_string_def)
next
  fix i assume "i < length images" "\<not> truthy (url (images ! i))"
  then show "map image_string images ! i
      = ''data:image/png;base64,'' @ the (b64_json (images ! i))"
    by (simp add: image_string_def)
next
  assume "\<exists>img \<in> set images. \<not> truthy (url img) \<and> \<not> truthy (b64_json img)"
  then show "normalize_response (Some images) = Inl ''Invalid response format from OpenAI API''"
    by (rule normalize_some)
next
  assume e: "\<exists>img \<in> set images. \<not> truthy (url img) \<and> \<not> truthy (b64_json img)"
    and r: "images_generate apiKey (generateImage_requestBody params) = Inr (Some images)"
  show "fst (generateImage images_generate params apiKey)
      = Inl ''Failed to generate image: Invalid response format from OpenAI API''"
    by (simp add: generateImage_def Let_def r after_call_def normalize_some [OF e] rethrow_def)
next
  show "normalize_response (Some []) = Inr []" by (simp add: normalize_response_def)
qed

theorem normalize_response_images_witness:
  "normalize_response (Some [url_image, b64_image])
     = Inr [''https://img.example/a.png'', ''data:image/png;base64,iVBORw0KGgo='']
   \<and> normalize_response (Some [url_image, bare_image, b64_image])
     = Inl ''Invalid response format from OpenAI API''
   \<and> fst (generateImage (\<lambda>k p. Inr (Some [url_image, bare_image, b64_image])) native_request ''sk-test'')
     = Inl ''Failed to generate image: Invalid response format from OpenAI API''"
proof -
  have a: "\<forall>img \<in> set [url_image, b64_image]. truthy (url img) \<or> truthy (b64_json img)"
    by (simp add: url_image_def b64_image_def)
  have b: "\<exists>img \<in> set [url_image, bare_image, b64_image].
      \<not> truthy (url img) \<and> \<not> truthy (b64_json img)"
    by (simp add: bare_image_def)
  have c: "(\<lambda>k p. Inr (Some [url_image, bare_image, b64_image])) ''sk-test''
      (generateImage_requestBody native_request) = Inr (Some [url_image, bare_image, b64_image])"
    by simp
  note t1 = normalize_response_images [of "[url_image, b64_image]", THEN conjunct1]
  note t2 = normalize_response_images [of "[url_image, bare_image, b64_image]"
      "\<lambda>k p. Inr (Some [url_image, bare_image, b64_image])" "''sk-test''" native_request,
      THEN conjunct2, THEN conjunct1]
  have 1: "normalize_response (Some [url_image, b64_image])
      = Inr (map image_string [url_image, b64_image])"
    by (rule conjunct1 [OF mp [OF t1 a]])
  note t3 = mp [OF t2 b]
  have 2: "normalize_response (Some [url_image, bare_image, b64_image])
        = Inl ''Invalid response format from OpenAI API''"
    by (rule conjunct1 [OF t3])
  have 3: "fst (generateImage (\<lambda>k p. Inr (Some [url_image, bare_image, b64_image]))
        native_request ''sk-test'')
        = Inl ''Failed to generate image: Invalid response format from OpenAI API''"
    by (rule mp [OF conjunct2 [OF t3] c])
  from 1 2 3 show ?thesis
    by (simp add: image_string_def url_image_def b64_image_def)
qed

section \<open>Properties of the File/MIME Classifier\<close>

lemma hex_digit_inj:
  assumes "a < 16" and "b < 16"
  shows "(hex_digit a = hex_digit b) = (a = b)"
proof -
  have d: "distinct ''0123456789abcdef''" by simp
  have l: "length ''0123456789abcdef'' = 16" by simp
  show ?thesis
    unfolding hex_digit_def using assms by (simp add: nth_eq_iff_index_eq [OF d] l)
qed

lemma byte_nibble_bounds: "unat (b :: byte) div 16 < 16" "unat b mod 16 < 16"
proof -
  have "unat b < 2 ^ LENGTH(8)" by (rule unsigned_less)
  then have "unat b < 256" by simp
  then show "unat b div 16 < 16" by simp
  show "unat b mod 16 < 16" by simp
qed

lemma byte_eq_nibbles:
  "(unat (w :: byte) div 16 = unat (b :: byte) div 16 \<and> unat w mod 16 = unat b mod 16) = (w = b)"
proof
  assume a: "unat w div 16 = unat b div 16 \<and> unat w mod 16 = unat b mod 16"
  have "unat w = 16 * (unat w div 16) + unat w mod 16" by simp
  also have "\<dots> = 16 * (unat b div 16) + unat b mod 16" using a by simp
  also have "\<dots> = unat b" by simp
  finally show "w = b" by (simp add: word_unat_eq_iff)
qed simp

lemma hex_pair_inj:
  "(hex_digit (unat (w :: byte) div 16) = hex_digit (unat (b :: byte) div 16)
    \<and> hex_digit (unat w mod 16) = hex_digit (unat b mod 16)) = (w = b)"
  by (simp add: hex_digit_inj byte_nibble_bounds byte_eq_nibbles)

lemma toString_hex_Nil: "toString_hex [] = []"
  by (simp add: toString_hex_def)

lemma toString_hex_Cons:
  "toString_hex (b # bs) =
     hex_digit (unat b div 16) # hex_digit (unat b mod 16) # toString_hex bs"
  by (simp add: toString_hex_def)

lemma prefix_toString_hex:
  "prefix (toString_hex ws @ p) (toString_hex buf) =
     (\<exists>rest. buf = ws @ rest \<and> prefix p (toString_hex rest))"
proof (induction ws arbitrary: buf)
  case Nil
  show ?case by (simp add: toString_hex_Nil)
next
  case (Cons w ws)
  show ?case
  proof (cases buf)
    case Nil
    then show ?thesis by (simp add: toString_hex_Nil toString_hex_Cons)
  next
    case (Cons b bs)
    have "prefix (toString_hex (w # ws) @ p) (toString_hex buf) =
        ((hex_digit (unat w div 16) = hex_digit (unat b div 16)
          \<and> hex_digit (unat w mod 16) = hex_digit (unat b mod 16))
         \<and> prefix (toString_hex ws @ p) (toString_hex bs))"
      by (simp add: Cons toString_hex_Cons)
    also have "\<dots> = (w = b \<and> (\<exists>rest. bs = ws @ rest \<and> prefix p (toString_hex rest)))"
      by (simp only: hex_pair_inj Cons.IH)
    also have "\<dots> = (\<exists>rest. buf = (w # ws) @ rest \<and> prefix p (toString_hex rest))"
      by (auto simp: Cons)
    finally show ?thesis .
  qed
qed

lemma png_signature_hex: "''89504e47'' = toString_hex [0x89, 0x50, 0x4E, 0x47] @ []"
  by (simp add: toString_hex_def hex_digit_def)

lemma jpeg_signature_hex: "''ffd8ffe'' = toString_hex [0xFF, 0xD8, 0xFF] @ [hex_digit 14]"
  by (simp add: toString_hex_def hex_digit_def)

lemma startsWith_png:
  "startsWith (toString_hex buf) ''89504e47'' = prefix [0x89, 0x50, 0x4E, 0x47] buf"
  unfolding startsWith_def png_signature_hex prefix_toString_hex
  by (simp add: prefix_def)

lemma prefix_high_nibble:
  "prefix [hex_digit 14] (toString_hex rest) = (rest \<noteq> [] \<and> unat (hd rest) div 16 = 14)"
proof (cases rest)
  case Nil
  then show ?thesis by (simp add: toString_hex_Nil)
next
  case (Cons b bs)
  have "(hex_digit 14 = hex_digit (unat b div 16)) = (14 = unat b div 16)"
    by (rule hex_digit_inj) (simp_all add: byte_nibble_bounds)
  then show ?thesis by (auto simp: Cons toString_hex_Cons)
qed

lemma startsWith_jpeg:
  "startsWith (toString_hex buf) ''ffd8ffe'' =
     (prefix [0xFF, 0xD8, 0xFF] buf \<and> 3 < length buf \<and> unat (buf ! 3) div 16 = 14)"
proof -
  have "startsWith (toString_hex buf) ''ffd8ffe'' =
      (\<exists>rest. buf = [0xFF, 0xD8, 0xFF] @ rest \<and> rest \<noteq> [] \<and> unat (hd rest) div 16 = 14)"
    unfolding startsWith_def jpeg_signature_hex prefix_toString_hex prefix_high_nibble ..
  also have "\<dots> = (prefix [0xFF, 0xD8, 0xFF] buf \<and> 3 < length buf \<and> unat (buf ! 3) div 16 = 14)"
  proof
    assume "\<exists>rest. buf = [0xFF, 0xD8, 0xFF] @ rest \<and> rest \<noteq> [] \<and> unat (hd rest) div 16 = 14"
    then obtain rest where r: "buf = [0xFF, 0xD8, 0xFF] @ rest" "rest \<noteq> []"
      "unat (hd rest) div 16 = 14" by blast
    from r(2) obtain b bs where "rest = b # bs" by (cases rest) simp_all
    with r show "prefix [0xFF, 0xD8, 0xFF] buf \<and> 3 < length buf \<and> unat (buf ! 3) div 16 = 14"
      by simp
  next
    assume a: "prefix [0xFF, 0xD8, 0xFF] buf \<and> 3 < length buf \<and> unat (buf ! 3) div 16 = 14"
    then obtain rest where r: "buf = [0xFF, 0xD8, 0xFF] @ rest" by (auto simp: prefix_def)
    with a have "rest \<noteq> []" by auto
    then obtain b bs where "rest = b # bs" by (cases rest) simp_all
    with r a show "\<exists>rest. buf = [0xFF, 0xD8, 0xFF] @ rest \<and> rest \<noteq> []
        \<and> unat (hd rest) div 16 = 14"
      by simp
  qed
  finally show ?thesis .
qed

text \<open>
  C7. Every source buffer of the edit path gets exactly one MIME label, decided by its
  bytes alone: image/png when its first four bytes are 89 50 4E 47; otherwise image/jpeg
  when its hexadecimal form starts with FF D8 FF E, that is, its first three bytes are
  FF D8 FF and a fourth byte exists whose high nibble is E; otherwise image/webp. The
  label of the file built from a buffer is this one at every index, so no name or
  extension takes part in it.
\<close>

theorem mimeType_of_bytes:
  "mimeType_of buf =
     (if prefix [0x89, 0x50, 0x4E, 0x47] buf then ''image/png''
      else if prefix [0xFF, 0xD8, 0xFF] buf \<and> 3 < length buf \<and> unat (buf ! 3) div 16 = 0xE
      then ''image/jpeg''
      else ''image/webp'')
   \<and> file_type (convert_image index buf) = mimeType_of buf
   \<and> map file_type (imageFiles_converted imageFiles) = map mimeType_of imageFiles"
proof (intro conjI)
  show "mimeType_of buf =
     (if prefix [0x89, 0x50, 0x4E, 0x47] buf then ''image/png''
      else if prefix [0xFF, 0xD8, 0xFF] buf \<and> 3 < length buf \<and> unat (buf ! 3) div 16 = 0xE
      then ''image/jpeg''
      else ''image/webp'')"
    by (simp only: mimeType_of_def startsWith_png startsWith_jpeg)
  show "file_type (convert_image index buf) = mimeType_of buf"
    by (simp add: convert_image_def Let_def)
  have "map file_type (map (\<lambda>(index, buf). convert_image index buf) (enumerate n imageFiles))
      = map mimeType_of imageFiles" for n
    by (induction imageFiles arbitrary: n) (simp_all add: convert_image_def Let_def)
  then show "map file_type (imageFiles_converted imageFiles) = map mimeType_of imageFiles"
    by (simp add: imageFiles_converted_def)
qed

theorem mimeType_of_bytes_witness:
  "mimeType_of png_buffer = ''image/png'' \<and> mimeType_of jpeg_buffer = ''image/jpeg''
   \<and> mimeType_of short_buffer = ''image/webp'' \<and> mimeType_of [] = ''image/webp''
   \<and> file_type (convert_image 7 jpeg_buffer) = ''image/jpeg''"
proof -
  have 1: "mimeType_of png_buffer = ''image/png''"
    using mimeType_of_bytes [of png_buffer, THEN conjunct1] by (simp add: png_buffer_def)
  have 2: "mimeType_of jpeg_buffer = ''image/jpeg''"
    using mimeType_of_bytes [of jpeg_buffer, THEN conjunct1] by (simp add: jpeg_buffer_def)
  have 3: "mimeType_of short_buffer = ''image/webp''"
    using mimeType_of_bytes [of short_buffer, THEN conjunct1] by (simp add: short_buffer_def)
  have 4: "mimeType_of [] = ''image/webp''"
    using mimeType_of_bytes [of "[]", THEN conjunct1] by simp
  have 5: "file_type (convert_image 7 jpeg_buffer) = mimeType_of jpeg_buffer"
    by (rule mimeType_of_bytes [THEN conjunct2, THEN conjunct1])
  from 1 2 3 4 5 show ?thesis by simp
qed

lemma file_name_example: "file_name (convert_image 7 jpeg_buffer) = ''image7.jpeg''"
  by (simp add: convert_image_def Let_def jpeg_buffer_def mimeType_of_def startsWith_def
      toString_hex_def hex_digit_def element_text_def decimal.simps)

section \<open>Properties of the edit and variation payloads\<close>

lemma map_of_assign_mask:
  "map_of (assign_mask m body) k =
     (if k = ''mask'' \<and> m \<noteq> None then Some (PFile (the m)) else map_of body k)"
  by (cases m) (simp_all add: assign_mask_def update_conv')

lemma edit_body_image:
  "map_of (editImage_requestBody imageFiles maskFile params) ''image'' =
     Some (if edit_model params = ''dall-e-2'' \<or> length (imageFiles_converted imageFiles) = 1
           then first_file (imageFiles_converted imageFiles)
           else PFiles (imageFiles_converted imageFiles))"
  by (simp add: editImage_requestBody_def Let_def map_of_assign map_of_assign_mask)

lemma edit_body_mask:
  "map_of (editImage_requestBody imageFiles maskFile params) ''mask'' =
     map_option PFile (maskFile_converted maskFile)"
  by (cases maskFile)
     (simp_all add: editImage_requestBody_def Let_def map_of_assign map_of_assign_mask
        maskFile_converted_def)

lemma edit_body_response_format:
  "map_of (editImage_requestBody imageFiles maskFile params) ''response_format'' =
     (if edit_model params = ''dall-e-2'' \<and> truthy (edit_response_format params)
      then Some (PStr (the (edit_response_format params))) else None)"
  by (simp add: editImage_requestBody_def Let_def map_of_assign map_of_assign_mask)

lemma imageFiles_converted_Cons:
  "imageFiles_converted (b # bs) =
     convert_image 0 b # map (\<lambda>(index, buf). convert_image index buf) (enumerate 1 bs)"
  by (simp add: imageFiles_converted_def)

lemma length_imageFiles_converted: "length (imageFiles_converted imageFiles) = length imageFiles"
  by (simp add: imageFiles_converted_def)

lemma file_bits_converted: "map file_bits (imageFiles_converted imageFiles) = imageFiles"
proof -
  have "map file_bits (map (\<lambda>(index, buf). convert_image index buf) (enumerate n imageFiles))
      = imageFiles" for n
    by (induction imageFiles arbitrary: n) (simp_all add: convert_image_def Let_def)
  then show ?thesis by (simp add: imageFiles_converted_def)
qed

lemma edit_body_first_only:
  assumes "edit_model params = ''dall-e-2''"
  shows "editImage_requestBody (b # bs) maskFile params = editImage_requestBody [b] maskFile params"
  using assms
  by (simp add: editImage_requestBody_def Let_def imageFiles_converted_Cons first_file_def)

text \<open>
  C6. The image field of the edit payload. For dall-e-2 it is the file made from the
  first supplied buffer, and the payload is the one a request with that buffer alone
  would give, so further buffers are ignored. For gpt-image-1 it is the single file when
  one buffer was supplied, and the list of all files, in the order and with the bytes of
  the supplied buffers, when more than one was supplied; the payload then has no
  response_format key. A mask key is present exactly when a mask buffer was supplied, and
  a response_format key is present only for dall-e-2.
\<close>

theorem editImage_image_field:
  "(edit_model params = ''dall-e-2'' \<longrightarrow>
       map_of (editImage_requestBody (b # bs) maskFile params) ''image''
         = Some (PFile (convert_image 0 b))
     \<and> editImage_requestBody (b # bs) maskFile params
         = editImage_requestBody [b] maskFile params)
   \<and> (edit_model params = ''gpt-image-1'' \<longrightarrow>
       map_of (editImage_requestBody [b] maskFile params) ''image''
         = Some (PFile (convert_image 0 b))
     \<and> (1 < length imageFiles \<longrightarrow>
          map_of (editImage_requestBody imageFiles maskFile params) ''image''
            = Some (PFiles (imageFiles_converted imageFiles))
        \<and> map file_bits (imageFiles_converted imageFiles) = imageFiles)
     \<and> map_of (editImage_requestBody imageFiles maskFile params) ''response_format'' = None)
   \<and> (map_of (editImage_requestBody imageFiles maskFile params) ''mask'' \<noteq> None)
       = (maskFile \<noteq> None)
   \<and> (map_of (editImage_requestBody imageFiles maskFile params) ''response_format'' \<noteq> None
       \<longrightarrow> edit_model params = ''dall-e-2'')"
proof (intro conjI impI)
  assume "edit_model params = ''dall-e-2''"
  then show "map_of (editImage_requestBody (b # bs) maskFile params) ''image''
      = Some (PFile (convert_image 0 b))"
    by (simp add: edit_body_image imageFiles_converted_Cons first_file_def)
next
  assume "edit_model params = ''dall-e-2''"
  then show "editImage_requestBody (b # bs) maskFile params
      = editImage_requestBody [b] maskFile params"
    by (rule edit_body_first_only)
next
  show "map_of (editImage_requestBody [b] maskFile params) ''image''
      = Some (PFile (convert_image 0 b))"
    by (simp add: edit_body_image imageFiles_converted_Cons first_file_def)
next
  assume "edit_model params = ''gpt-image-1''" "1 < length imageFiles"
  then show "map_of (editImage_requestBody imageFiles maskFile params) ''image''
      = Some (PFiles (imageFiles_converted imageFiles))"
    by (simp add: edit_body_image length_imageFiles_converted)
next
  show "map file_bits (imageFiles_converted imageFiles) = imageFiles"
    by (rule file_bits_converted)
next
  assume "edit_model params = ''gpt-image-1''"
  then show "map_of (editImage_requestBody imageFiles maskFile params) ''response_format'' = None"
    by (simp add: edit_body_response_format)
next
  show "(map_of (editImage_requestBody imageFiles maskFile params) ''mask'' \<noteq> None)
      = (maskFile \<noteq> None)"
    by (cases maskFile) (simp_all add: edit_body_mask maskFile_converted_def)
next
  assume "map_of (editImage_requestBody imageFiles maskFile params) ''response_format'' \<noteq> None"
  then show "edit_model params = ''dall-e-2''"
    by (simp add: edit_body_response_format split: if_splits)
qed

theorem editImage_image_field_witness:
  "map_of (editImage_requestBody [png_buffer, jpeg_buffer, short_buffer] None native_edit) ''image''
     = Some (PFiles (imageFiles_converted [png_buffer, jpeg_buffer, short_buffer]))
   \<and> map file_bits (imageFiles_converted [png_buffer, jpeg_buffer, short_buffer])
     = [png_buffer, jpeg_buffer, short_buffer]
   \<and> map_of (editImage_requestBody [png_buffer, jpeg_buffer, short_buffer] None native_edit) ''mask''
     = None
   \<and> map_of (editImage_requestBody [png_buffer, jpeg_buffer, short_buffer] None native_edit)
       ''response_format'' = None
   \<and> map_of (editImage_requestBody [png_buffer, jpeg_buffer] None basic_edit) ''image''
     = Some (PFile (convert_image 0 png_buffer))
   \<and> map_of (editImage_requestBody [png_buffer, jpeg_buffer] None basic_edit) ''response_format''
     = Some (PStr ''url'')"
proof -
  let ?three = "[png_buffer, jpeg_buffer, short_buffer]"
  have m: "edit_model native_edit = ''gpt-image-1''" by (simp add: native_edit_def)
  have d: "edit_model basic_edit = ''dall-e-2''" by (simp add: basic_edit_def)
  have l: "1 < length ?three" by simp
  note t = editImage_image_field [of native_edit png_buffer "[]" None ?three]
  note g = mp [OF t [THEN conjunct2, THEN conjunct1] m]
  note g3 = mp [OF g [THEN conjunct2, THEN conjunct1] l]
  note k = t [THEN conjunct2, THEN conjunct2, THEN conjunct1]
  note u = editImage_image_field [of basic_edit png_buffer "[jpeg_buffer]" None "[]"]
  note u1 = mp [OF u [THEN conjunct1] d]
  have 1: "map_of (editImage_requestBody ?three None native_edit) ''image''
      = Some (PFiles (imageFiles_converted ?three))"
    by (rule g3 [THEN conjunct1])
  have 2: "map file_bits (imageFiles_converted ?three) = ?three"
    by (rule g3 [THEN conjunct2])
  have 3: "map_of (editImage_requestBody ?three None native_edit) ''mask'' = None"
    using k by simp
  have 4: "map_of (editImage_requestBody ?three None native_edit) ''response_format'' = None"
    by (rule g [THEN conjunct2, THEN conjunct2])
  have 5: "map_of (editImage_requestBody [png_buffer, jpeg_buffer] None basic_edit) ''image''
      = Some (PFile (convert_image 0 png_buffer))"
    by (rule u1 [THEN conjunct1])
  have 6: "map_of (editImage_requestBody [png_buffer, jpeg_buffer] None basic_edit)
      ''response_format'' = Some (PStr ''url'')"
    by (simp add: edit_body_response_format basic_edit_def)
  from 1 2 3 4 5 6 show ?thesis by (intro conjI)
qed

text \<open>
  C8. A mask buffer is sent upstream as the file mask.png with MIME type image/png,
  whatever its bytes are and whatever the model is: the classifier is not applied to it.
\<close>

theorem editImage_mask_png:
  "maskFile_converted (Some m)
     = Some \<lparr>file_name = ''mask.png'', file_type = ''image/png'', file_bits = m\<rparr>
   \<and> map_of (editImage_requestBody imageFiles (Some m) params) ''mask''
     = Some (PFile \<lparr>file_name = ''mask.png'', file_type = ''image/png'', file_bits = m\<rparr>)
   \<and> snd (editImage images_edit imageFiles (Some m) params apiKey)
     = [Images_edit apiKey (editImage_requestBody imageFiles (Some m) params)]"
  by (simp add: edit_body_mask maskFile_converted_def editImage_def Let_def)

theorem editImage_mask_png_witness:
  "mimeType_of jpeg_buffer = ''image/jpeg''
   \<and> map_of (editImage_requestBody [png_buffer] (Some jpeg_buffer) basic_edit) ''mask''
     = Some (PFile \<lparr>file_name = ''mask.png'', file_type = ''image/png'',
                    file_bits = jpeg_buffer\<rparr>)"
proof -
  have "mimeType_of jpeg_buffer = ''image/jpeg''"
    by (simp add: mimeType_of_def startsWith_def toString_hex_def hex_digit_def jpeg_buffer_def)
  with editImage_mask_png [of jpeg_buffer "[png_buffer]" basic_edit] show ?thesis by simp
qed

lemma variation_body_fixed:
  "map_of (createImageVariations_requestBody imageFile params) ''image''
     = Some (PBlob \<lparr>blob_type = ''image/png'', blob_bits = imageFile\<rparr>)
   \<and> map_of (createImageVariations_requestBody imageFile params) ''n''
     = Some (PNum (var_n params))
   \<and> map_of (createImageVariations_requestBody imageFile params) ''size''
     = Some (PStr (var_size params))
   \<and> map_of (createImageVariations_requestBody imageFile params) ''response_format''
     = Some (PStr (var_response_format params))"
  by (simp add: createImageVariations_requestBody_def Let_def map_of_assign)

lemma variation_body_user:
  "map_of (createImageVariations_requestBody imageFile params) ''user''
     = (if truthy (var_user params) then Some (PStr (the (var_user params))) else None)"
  by (simp add: createImageVariations_requestBody_def Let_def map_of_assign)

text \<open>
  C10. The variations path sends the uploaded buffer as a blob labelled image/png,
  whatever its bytes are; the payload always has n, size and response_format, and it has
  a user key exactly when the request's user is a non-empty string.
\<close>

theorem createImageVariations_payload:
  "map_of (createImageVariations_requestBody imageFile params) ''image''
     = Some (PBlob \<lparr>blob_type = ''image/png'', blob_bits = imageFile\<rparr>)
   \<and> map_of (createImageVariations_requestBody imageFile params) ''n''
     = Some (PNum (var_n params))
   \<and> map_of (createImageVariations_requestBody imageFile params) ''size''
     = Some (PStr (var_size params))
   \<and> map_of (createImageVariations_requestBody imageFile params) ''response_format''
     = Some (PStr (var_response_format params))
   \<and> (map_of (createImageVariations_requestBody imageFile params) ''user'' \<noteq> None)
     = (\<exists>s. var_user params = Some s \<and> s \<noteq> [])
   \<and> snd (createImageVariations images_createVariation imageFile params apiKey)
     = [Images_createVariation apiKey (createImageVariations_requestBody imageFile params)]"
proof -
  have u: "(map_of (createImageVariations_requestBody imageFile params) ''user'' \<noteq> None)
      = (\<exists>s. var_user params = Some s \<and> s \<noteq> [])"
    by (cases "var_user params") (simp_all add: variation_body_user)
  have c: "snd (createImageVariations images_createVariation imageFile params apiKey)
      = [Images_createVariation apiKey (createImageVariations_requestBody imageFile params)]"
    by (simp add: createImageVariations_def Let_def)
  from variation_body_fixed [of imageFile params] u c show ?thesis by simp
qed

theorem createImageVariations_payload_witness:
  "mimeType_of jpeg_buffer = ''image/jpeg''
   \<and> map_of (createImageVariations_requestBody jpeg_buffer three_variations) ''image''
     = Some (PBlob \<lparr>blob_type = ''image/png'', blob_bits = jpeg_buffer\<rparr>)
   \<and> map_of (createImageVariations_requestBody jpeg_buffer three_variations) ''n''
     = Some (PNum 3)
   \<and> map_of (createImageVariations_requestBody jpeg_buffer three_variations) ''user'' = None"
proof -
  have j: "mimeType_of jpeg_buffer = ''image/jpeg''"
    by (simp add: mimeType_of_def startsWith_def toString_hex_def hex_digit_def jpeg_buffer_def)
  note t = createImageVariations_payload [of jpeg_buffer three_variations]
  have 1: "map_of (createImageVariations_requestBody jpeg_buffer three_variations) ''image''
      = Some (PBlob \<lparr>blob_type = ''image/png'', blob_bits = jpeg_buffer\<rparr>)"
    by (rule t [THEN conjunct1])
  have 2: "map_of (createImageVariations_requestBody jpeg_buffer three_variations) ''n''
      = Some (PNum 3)"
    using t [THEN conjunct2, THEN conjunct1] by (simp add: three_variations_def)
  have 3: "map_of (createImageVariations_requestBody jpeg_buffer three_variations) ''user'' = None"
    using t [THEN conjunct2, THEN conjunct2, THEN conjunct2, THEN conjunct2, THEN conjunct1]
    by (simp add: three_variations_def)
  from j 1 2 3 show ?thesis by (intro conjI)
qed

section \<open>Properties of the flower handler\<close>












lemmas zod_defs = z_string_def z_string_min1_def z_enum_def z_number_min_max_def
  z_optional_def z_default_def ap_def common_schema_def generateImageSchema_def





section \<open>Properties of the generate handler\<close>

lemma count_eleven_issues: "generateImageSchema count_eleven = Inl [([''n''], too_big)]"
  by (simp add: count_eleven_def zod_defs)

lemma missing_prompt_issues: "generateImageSchema missing_prompt = Inl [([''prompt''], invalid_type)]"
  by (simp add: missing_prompt_def zod_defs)

lemma bad_model_issues: "generateImageSchema bad_model = Inl [([''model''], invalid_enum_value)]"
  by (simp add: bad_model_def zod_defs)

lemma compression_high_issues:
  "generateImageSchema compression_high = Inl [([''output_compression''], too_big)]"
  by (simp add: compression_high_def zod_defs)

lemma isl_ap: "isl (ap rf rx) = (isl rf \<or> isl rx)"
  by (cases rf; cases rx) (simp_all add: ap_def)

lemma bad_enumE:
  assumes "bad_enum options v"
  obtains s where "v = Some (JStr s)" "s \<notin> set options"
proof (cases v)
  case None
  with assms show ?thesis by (simp add: bad_enum_def)
next
  case (Some a)
  with assms that show ?thesis by (cases a) (simp_all add: bad_enum_def)
qed

lemma out_of_rangeE:
  assumes "out_of_range lo hi v"
  obtains x where "v = Some (JNum x)" "x < lo \<or> hi < x"
proof (cases v)
  case None
  with assms show ?thesis by (simp add: out_of_range_def)
next
  case (Some a)
  with assms that show ?thesis by (cases a) (simp_all add: out_of_range_def)
qed

lemma bad_enum_default:
  assumes "bad_enum options v"
  shows "isl (z_default d (z_enum options) path v)"
proof -
  from assms obtain s where "v = Some (JStr s)" "s \<notin> set options" by (rule bad_enumE)
  then show ?thesis by (simp add: z_default_def z_enum_def)
qed

lemma bad_enum_optional:
  assumes "bad_enum options v"
  shows "isl (z_optional (z_enum options) path v)"
proof -
  from assms obtain s where "v = Some (JStr s)" "s \<notin> set options" by (rule bad_enumE)
  then show ?thesis by (simp add: z_optional_def z_enum_def)
qed

lemma out_of_range_default:
  assumes "out_of_range lo hi v"
  shows "isl (z_default d (z_number_min_max lo hi) path v)"
proof -
  from assms obtain x where "v = Some (JNum x)" "x < lo \<or> hi < x" by (rule out_of_rangeE)
  then show ?thesis by (auto simp: z_default_def z_number_min_max_def)
qed

lemma out_of_range_optional:
  assumes "out_of_range lo hi v"
  shows "isl (z_optional (z_number_min_max lo hi) path v)"
proof -
  from assms obtain x where "v = Some (JNum x)" "x < lo \<or> hi < x" by (rule out_of_rangeE)
  then show ?thesis by (auto simp: z_optional_def z_number_min_max_def)
qed

lemma missing_prompt_rejected: "isl (z_string_min1 path None)"
  by (simp add: z_string_min1_def z_string_def)

lemma isl_common_schema:
  "isl (common_schema size_default obj) =
     (isl (z_default ''dall-e-2''
             (z_enum [''dall-e-2'', ''dall-e-3'', ''gpt-image-1'',
                      ''gemini-2.5-flash-image-preview''])
             [''model''] (obj ''model''))
    \<or> isl (z_default size_default z_string [''size''] (obj ''size''))
    \<or> isl (z_default 1 (z_number_min_max 1 10) [''n''] (obj ''n''))
    \<or> isl (z_optional (z_enum [''standard'', ''hd'', ''auto'', ''high'', ''medium'', ''low''])
             [''quality''] (obj ''quality''))
    \<or> isl (z_optional (z_enum [''vivid'', ''natural'']) [''style''] (obj ''style''))
    \<or> isl (z_optional (z_enum [''url'', ''b64_json''])
             [''response_format''] (obj ''response_format''))
    \<or> isl (z_optional (z_enum [''png'', ''jpeg'', ''webp''])
             [''output_format''] (obj ''output_format''))
    \<or> isl (z_optional (z_number_min_max 0 100)
             [''output_compression''] (obj ''output_compression''))
    \<or> isl (z_optional (z_enum [''auto'', ''transparent'', ''opaque''])
             [''background''] (obj ''background''))
    \<or> isl (z_optional (z_enum [''auto'', ''low'']) [''moderation''] (obj ''moderation''))
    \<or> isl (z_optional z_string [''user''] (obj ''user'')))"
  by (simp only: common_schema_def isl_ap sum.disc disj_assoc simp_thms)

lemma listed_violation_rejected:
  assumes "listed_violation input"
  shows "isl (generateImageSchema input)"
proof (cases input)
  case (JObj kvs)
  from assms have d: "map_of kvs ''prompt'' = None
      \<or> bad_enum [''dall-e-2'', ''dall-e-3'', ''gpt-image-1'',
                   ''gemini-2.5-flash-image-preview''] (map_of kvs ''model'')
      \<or> out_of_range 1 10 (map_of kvs ''n'')
      \<or> bad_enum [''standard'', ''hd'', ''auto'', ''high'', ''medium'', ''low'']
           (map_of kvs ''quality'')
      \<or> bad_enum [''vivid'', ''natural''] (map_of kvs ''style'')
      \<or> bad_enum [''url'', ''b64_json''] (map_of kvs ''response_format'')
      \<or> bad_enum [''png'', ''jpeg'', ''webp''] (map_of kvs ''output_format'')
      \<or> out_of_range 0 100 (map_of kvs ''output_compression'')
      \<or> bad_enum [''auto'', ''transparent'', ''opaque''] (map_of kvs ''background'')
      \<or> bad_enum [''auto'', ''low''] (map_of kvs ''moderation'')"
    by (simp add: listed_violation_def JObj)
  have g: "isl (generateImageSchema input) =
      (isl (z_string_min1 [''prompt''] (map_of kvs ''prompt''))
       \<or> isl (common_schema ''512x512'' (map_of kvs)))"
    by (simp add: generateImageSchema_def JObj isl_ap)
  from d show ?thesis
    unfolding g isl_common_schema
    by (elim disjE)
       (simp_all add: missing_prompt_rejected bad_enum_default bad_enum_optional
          out_of_range_default out_of_range_optional)
qed (use assms in \<open>simp_all add: listed_violation_def\<close>)

text \<open>
  C5, as amended. A request whose body fails the schema is answered with HTTP status 500
  (not 400) carrying the text of the schema violation, and no upstream call is made. The
  violations the specification lists all fail the schema.
\<close>

theorem api_generate_invalid_body:
  "(generateImageSchema input = Inl issues \<longrightarrow>
      api_generate env input =
        (error_response 500
           (message_or (zod_message env issues)
              ''Failed to generate image. Please check your prompt and try again.''), []))
   \<and> (listed_violation input \<longrightarrow>
        isl (generateImageSchema input)
      \<and> res_status (fst (api_generate env input)) = 500
      \<and> snd (api_generate env input) = [])"
proof (intro conjI impI)
  assume "generateImageSchema input = Inl issues"
  then show "api_generate env input =
      (error_response 500
         (message_or (zod_message env issues)
            ''Failed to generate image. Please check your prompt and try again.''), [])"
    by (simp add: api_generate_def)
next
  assume "listed_violation input"
  then show "isl (generateImageSchema input)" by (rule listed_violation_rejected)
next
  assume "listed_violation input"
  then have "isl (generateImageSchema input)" by (rule listed_violation_rejected)
  then obtain issues where "generateImageSchema input = Inl issues"
    by (cases "generateImageSchema input") simp_all
  then show "res_status (fst (api_generate env input)) = 500"
    by (simp add: api_generate_def error_response_def)
next
  assume "listed_violation input"
  then have "isl (generateImageSchema input)" by (rule listed_violation_rejected)
  then obtain issues where "generateImageSchema input = Inl issues"
    by (cases "generateImageSchema input") simp_all
  then show "snd (api_generate env input) = []"
    by (simp add: api_generate_def)
qed

text \<open>
  C5 as stated fails: a body with n = 11 violates the schema, and the answer has status
  500, because the handler's catch block answers every thrown error with 500.
\<close>

theorem api_generate_not_400:
  "generateImageSchema count_eleven = Inl [([''n''], too_big)]
   \<and> res_status (fst (api_generate example_env count_eleven)) = 500
   \<and> res_status (fst (api_generate example_env count_eleven)) \<noteq> 400"
  by (simp add: api_generate_def count_eleven_issues error_response_def)

theorem api_generate_invalid_body_witness:
  "api_generate example_env count_eleven = (error_response 500 ''validation failed'', [])
   \<and> api_generate example_env missing_prompt = (error_response 500 ''validation failed'', [])
   \<and> api_generate example_env bad_model = (error_response 500 ''validation failed'', [])
   \<and> api_generate example_env compression_high = (error_response 500 ''validation failed'', [])
   \<and> res_status (fst (api_generate example_env compression_high)) = 500
   \<and> snd (api_generate example_env compression_high) = []"
proof -
  have z: "zod_message example_env = (\<lambda>issues. ''validation failed'')"
    by (simp add: example_env_def)
  have v: "listed_violation compression_high"
    by (simp add: listed_violation_def compression_high_def bad_enum_def out_of_range_def)
  note a = api_generate_invalid_body [THEN conjunct1, THEN mp]
  note b = api_generate_invalid_body [of compression_high _ example_env, THEN conjunct2,
      THEN mp, OF v, THEN conjunct2]
  from a [OF count_eleven_issues, of example_env] a [OF missing_prompt_issues, of example_env]
    a [OF bad_model_issues, of example_env] a [OF compression_high_issues, of example_env] b
  show ?thesis by (simp add: z message_or_def)
qed

section \<open>Properties of the batch handler\<close>
















end
